theory Spec2Isabelle
  imports Main "HOL-Library.Word"
begin

section \<open>Strings of the script\<close>

text \<open>
  A string of the script is a sequence of 16-bit code units, which is what
  \<^verbatim>\<open>startsWith\<close>, \<^verbatim>\<open>substring\<close>, \<^verbatim>\<open>split\<close> and the regular expression work on.
  \<open>lit\<close> reads an ASCII literal of the source; the two literals beyond ASCII are
  written out by their code units.
\<close>

type_synonym codeUnit = "16 word"
type_synonym jsstring = "codeUnit list"

definition lit :: "string \<Rightarrow> jsstring" where
  "lit s = map of_char s"

definition startsWith :: "jsstring \<Rightarrow> jsstring \<Rightarrow> bool" where
  "startsWith s p = (take (length p) s = p)"

definition endsWith :: "jsstring \<Rightarrow> jsstring \<Rightarrow> bool" where
  "endsWith s p = (length p \<le> length s \<and> drop (length s - length p) s = p)"

definition substring :: "nat \<Rightarrow> jsstring \<Rightarrow> jsstring" where
  "substring n s = drop n s"

section \<open>The services' data\<close>

text \<open>
  The headers of an HTTP response are an object from names to values. A Drive folder
  lists its child folders and its files in the order of the service's iterators; a
  file has an identifier and a name; an opened spreadsheet gives its identifier, name
  and URL.
\<close>

type_synonym headers = "(jsstring \<times> jsstring) list"

record GFile =
  fileId :: jsstring
  fileName :: jsstring

datatype GFolder =
  GFolder (folderName: jsstring) (getFolders: "GFolder list") (getFiles: "GFile list")

record Spreadsheet =
  getId :: jsstring
  getName :: jsstring
  getUrl :: jsstring

section \<open>Errors\<close>

text \<open>
  Every \<^verbatim>\<open>throw new Error(JSON.stringify(info))\<close> of the source is an \<open>Error\<close> whose
  payload keeps the fields of \<open>info\<close>; \<open>TypeError\<close> is what the runtime raises for
  \<^verbatim>\<open>reduce\<close> on an empty array without an initial value and for a method call on
  \<^verbatim>\<open>undefined\<close>. An \<open>Exception\<close> is thrown by a service of the platform, not by the
  script: by \<^verbatim>\<open>UrlFetchApp.fetch\<close> for a request that failed, with the URL and the
  status, and by \<^verbatim>\<open>setValue\<close> for a cell that the spreadsheet service does not let
  the script write, with the spreadsheet's identifier and the cell's address.
\<close>

datatype payload =
    Message jsstring
  | FetchInfo headers jsstring int
  | FolderNotFound "jsstring list" jsstring
  | SpreadsheetNotFound jsstring GFolder

datatype serviceException =
    RequestFailed jsstring int
  | WriteFailed jsstring jsstring

datatype error = Error payload | TypeError | Exception serviceException

text \<open>\<^verbatim>\<open>Array.prototype.reduce\<close> with a callback that may throw: the first throw ends it.\<close>

fun reduceFrom :: "('b \<Rightarrow> 'a \<Rightarrow> 'e + 'b) \<Rightarrow> 'b \<Rightarrow> 'a list \<Rightarrow> 'e + 'b" where
  "reduceFrom f acc [] = Inr acc"
| "reduceFrom f acc (x # xs) =
     (case f acc x of Inl e \<Rightarrow> Inl e | Inr acc' \<Rightarrow> reduceFrom f acc' xs)"

section \<open>Path Joiner\<close>

definition SEPARATOR :: jsstring where
  "SEPARATOR = lit ''/''"

text \<open>The discriminant of the \<^verbatim>\<open>switch\<close> in \<^verbatim>\<open>joinPath\<close>.\<close>

definition joinPath_switch :: "jsstring \<Rightarrow> jsstring \<Rightarrow> nat" where
  "joinPath_switch lhs rhs =
     (if endsWith lhs SEPARATOR then 1 else 0) + (if startsWith rhs SEPARATOR then 2 else 0)"

definition joinPath :: "jsstring \<Rightarrow> jsstring \<Rightarrow> error + jsstring" where
  "joinPath lhs rhs =
     (let d = joinPath_switch lhs rhs in
      if d = 0 then Inr (lhs @ SEPARATOR @ rhs)
      else if d = 1 \<or> d = 2 then Inr (lhs @ rhs)
      else if d = 3 then Inr (lhs @ substring 1 rhs)
      else Inl (Error (Message (lit ''Unreachable''))))"

definition joinPaths :: "jsstring list \<Rightarrow> error + jsstring" where
  "joinPaths paths =
     (case paths of [] \<Rightarrow> Inl TypeError | p # ps \<Rightarrow> reduceFrom joinPath p ps)"

section \<open>Strings: split, join, the label pattern, lower case\<close>

text \<open>
  \<open>split s sep\<close> is \<^verbatim>\<open>s.split(sep)\<close> for a string separator: the pieces between the
  occurrences of \<open>sep\<close>, found from left to right without overlap; with an empty
  separator, the code units one by one.
\<close>

function split_go :: "jsstring \<Rightarrow> jsstring \<Rightarrow> jsstring \<Rightarrow> jsstring list" where
  "split_go sep cur [] = [cur]"
| "split_go sep cur (c # cs) =
     (if sep \<noteq> [] \<and> startsWith (c # cs) sep
      then cur # split_go sep [] (drop (length sep) (c # cs))
      else split_go sep (cur @ [c]) cs)"
  by pat_completeness auto
termination
  by (relation "measure (\<lambda>(sep, cur, s). length s)") auto

definition split :: "jsstring \<Rightarrow> jsstring \<Rightarrow> jsstring list" where
  "split s sep = (if sep = [] then map (\<lambda>c. [c]) s else split_go sep [] s)"

text \<open>\<open>join xs sep\<close> is \<^verbatim>\<open>xs.join(sep)\<close> on an array of strings.\<close>

fun join :: "jsstring list \<Rightarrow> jsstring \<Rightarrow> jsstring" where
  "join [] sep = []"
| "join [x] sep = x"
| "join (x # y # ys) sep = x @ sep @ join (y # ys) sep"

text \<open>
  The pattern \<^verbatim>\<open>/\[\[(.+)\]\]/\<close>: \<open>matchLabel s\<close> is the first group of \<^verbatim>\<open>s.match\<close> of it,
  \<open>None\<close> when there is no match. The match starts at the leftmost \<^verbatim>\<open>[[\<close> from
  which it succeeds; \<^verbatim>\<open>.+\<close> is greedy, takes at least one code unit and no line
  terminator, and gives back code units until \<^verbatim>\<open>]]\<close> follows.
\<close>

definition isLineTerminator :: "codeUnit \<Rightarrow> bool" where
  "isLineTerminator c = (c = 0x000A \<or> c = 0x000D \<or> c = 0x2028 \<or> c = 0x2029)"

fun dotStarClose :: "jsstring \<Rightarrow> jsstring option" where
  "dotStarClose [] = None"
| "dotStarClose (c # cs) =
     (case (if isLineTerminator c then None else dotStarClose cs) of
        Some p \<Rightarrow> Some (c # p)
      | None \<Rightarrow> if startsWith (c # cs) (lit '']]'') then Some [] else None)"

fun dotPlusClose :: "jsstring \<Rightarrow> jsstring option" where
  "dotPlusClose [] = None"
| "dotPlusClose (c # cs) =
     (if isLineTerminator c then None else map_option ((#) c) (dotStarClose cs))"

fun matchLabel :: "jsstring \<Rightarrow> jsstring option" where
  "matchLabel [] = None"
| "matchLabel (c # cs) =
     (case (if startsWith (c # cs) (lit ''[['') then dotPlusClose (drop 2 (c # cs)) else None) of
        Some g \<Rightarrow> Some g
      | None \<Rightarrow> matchLabel cs)"

text \<open>
  \<^verbatim>\<open>toLowerCase\<close>: the letters A to Z and the Kelvin sign U+212A are the code units
  whose lower case is an ASCII letter; the model leaves every other code unit as it
  is, which changes no comparison with a word of ASCII letters.
\<close>

definition toLowerCaseUnit :: "codeUnit \<Rightarrow> codeUnit" where
  "toLowerCaseUnit c =
     (if 0x41 \<le> c \<and> c \<le> 0x5A then c + 0x20 else if c = 0x212A then 0x6B else c)"

definition toLowerCase :: "jsstring \<Rightarrow> jsstring" where
  "toLowerCase s = map toLowerCaseUnit s"

section \<open>KPT Parser\<close>

text \<open>
  A \<open>KPTContents\<close> is an object from kinds to texts; \<open>fromEntries\<close> is
  \<^verbatim>\<open>Object.fromEntries\<close> and \<open>kpt(kind \<mapsto> v)\<close> is \<^verbatim>\<open>{ ...kpt, [kind]: v }\<close>.
\<close>

type_synonym KPTContents = "jsstring \<rightharpoonup> jsstring"

definition kptContentsKinds :: "jsstring list" where
  "kptContentsKinds = [lit ''try'', lit ''problem'', lit ''keep'', lit ''other'']"

definition fromEntries :: "(jsstring \<times> jsstring) list \<Rightarrow> KPTContents" where
  "fromEntries es = foldl (\<lambda>obj (k, v). obj(k \<mapsto> v)) Map.empty es"

definition emptyKPTContents :: KPTContents where
  "emptyKPTContents = fromEntries (map (\<lambda>kind. (kind, lit '''')) kptContentsKinds)"

text \<open>
  \<open>labelKind\<close> is the \<^verbatim>\<open>kind\<close> of the source's callback, \<open>None\<close> for \<^verbatim>\<open>undefined\<close>;
  \<open>parseChunk\<close> is the callback.
\<close>

definition labelKind :: "jsstring \<Rightarrow> jsstring option" where
  "labelKind kind' = map_option toLowerCase (matchLabel kind')"

definition parseChunk :: "KPTContents \<Rightarrow> jsstring \<Rightarrow> error + KPTContents" where
  "parseChunk kpt chunk =
     (case split chunk (lit ''\<newline>'') of
        [] \<Rightarrow> Inl TypeError
      | kind' # contents \<Rightarrow>
          (case labelKind kind' of
             None \<Rightarrow> Inr kpt
           | Some kind \<Rightarrow>
               if kind = [] then Inr kpt
               else if kind \<notin> set kptContentsKinds then Inr kpt
               else Inr (kpt(kind \<mapsto> join contents (lit ''\<newline>'')))))"

definition parseAsKPTContents :: "jsstring \<Rightarrow> error + KPTContents" where
  "parseAsKPTContents contents =
     reduceFrom parseChunk emptyKPTContents (drop 1 (split contents (lit ''\<newline>\<newline>'')))"

text \<open>
  The parser as the specification words it: the text is cut at blank lines, the chunk
  before the first blank line is the title and the others are the sections; a section's
  kind is the lower-cased label in double brackets on its first line, when that is one
  of the four kinds, and its body is its other lines joined by newlines; a section
  with a kind sets that kind's field to its body.
\<close>

definition sections :: "jsstring \<Rightarrow> jsstring list" where
  "sections contents = drop 1 (split contents (lit ''\<newline>\<newline>''))"

definition sectionKind :: "jsstring \<Rightarrow> jsstring option" where
  "sectionKind chunk =
     (case split chunk (lit ''\<newline>'') of
        [] \<Rightarrow> None
      | label # body \<Rightarrow>
          (case labelKind label of
             None \<Rightarrow> None
           | Some kind \<Rightarrow> if kind \<in> set kptContentsKinds then Some kind else None))"

definition sectionBody :: "jsstring \<Rightarrow> jsstring" where
  "sectionBody chunk = join (drop 1 (split chunk (lit ''\<newline>''))) (lit ''\<newline>'')"

definition setSection :: "KPTContents \<Rightarrow> jsstring \<Rightarrow> KPTContents" where
  "setSection kpt chunk =
     (case sectionKind chunk of None \<Rightarrow> kpt | Some kind \<Rightarrow> kpt(kind \<mapsto> sectionBody chunk))"

section \<open>Dates and numbers\<close>

text \<open>
  A \<^verbatim>\<open>Date\<close> is read through \<^verbatim>\<open>getFullYear\<close> and \<^verbatim>\<open>getMonth\<close> only; \<^verbatim>\<open>getMonth\<close> is
  the month's index, 0 for January to 11 for December. \<open>toString\<close> is the decimal
  notation of an integer.
\<close>

record Date =
  getFullYear :: int
  getMonth :: nat

definition digitChar :: "nat \<Rightarrow> codeUnit" where
  "digitChar d = of_nat (48 + d)"

fun digits :: "nat \<Rightarrow> jsstring" where
  "digits n = (if n < 10 then [digitChar n] else digits (n div 10) @ [digitChar (n mod 10)])"

declare digits.simps [simp del]

definition toString :: "int \<Rightarrow> jsstring" where
  "toString i = (if i < 0 then lit ''-'' @ digits (nat (- i)) else digits (nat i))"

definition padStart :: "jsstring \<Rightarrow> nat \<Rightarrow> jsstring \<Rightarrow> jsstring" where
  "padStart s targetLength padString =
     (if targetLength \<le> length s \<or> padString = [] then s
      else take (targetLength - length s)
             (concat (replicate (targetLength - length s) padString)) @ s)"

section \<open>Configuration, services and their state\<close>

text \<open>
  \<open>Env\<close> holds the four script properties, which the script asserts to be non-empty
  before anything else runs. \<open>Services\<close> is what lies behind the platform's services:
  the response of the document server to a request, whatever its status, the Drive
  folder of an identifier, the spreadsheet of a file identifier, and the cells that
  the spreadsheet service refuses to write (a protected range, a spreadsheet the
  script may not edit). \<open>World\<close> is what a run changes: the requests sent, in order,
  and the cells of the spreadsheets, by spreadsheet identifier and cell address.
\<close>

record Env =
  SCRAPBOX_SID :: jsstring
  SCRAPBOX_BASE_URL :: jsstring
  SCRAPBOX_PROJECT_NAME :: jsstring
  GDRIVE_ROOT_FOLDER_ID :: jsstring

record HTTPResponse =
  getResponseCode :: int
  getHeaders :: headers
  getContentText :: jsstring

record Services =
  serverResponse :: "jsstring \<Rightarrow> headers \<Rightarrow> HTTPResponse"
  getFolderById :: "jsstring \<Rightarrow> GFolder"
  openById :: "jsstring \<Rightarrow> Spreadsheet"
  setValueThrows :: "jsstring \<Rightarrow> jsstring \<Rightarrow> bool"

record World =
  requests :: "(jsstring \<times> headers) list"
  cells :: "(jsstring \<times> jsstring) \<rightharpoonup> jsstring option"

text \<open>
  \<^verbatim>\<open>UrlFetchApp.fetch(url, params)\<close> as the platform documents it: the request is sent,
  and the response is returned unless its status indicates failure and
  \<^verbatim>\<open>params.muteHttpExceptions\<close> is not \<^verbatim>\<open>true\<close>, its default being \<^verbatim>\<open>false\<close>; then the
  call throws. The statuses that indicate failure are those from 400 on.
\<close>

definition indicatesFailure :: "int \<Rightarrow> bool" where
  "indicatesFailure code = (400 \<le> code)"

definition UrlFetchApp_fetch ::
  "Services \<Rightarrow> jsstring \<Rightarrow> headers \<Rightarrow> bool \<Rightarrow> World \<Rightarrow> (error + HTTPResponse) \<times> World" where
  "UrlFetchApp_fetch srv url hs muteHttpExceptions w =
     (let response = serverResponse srv url hs;
          w' = w\<lparr>requests := requests w @ [(url, hs)]\<rparr>
      in if indicatesFailure (getResponseCode response) \<and> \<not> muteHttpExceptions
         then (Inl (Exception (RequestFailed url (getResponseCode response))), w')
         else (Inr response, w'))"

section \<open>Page Fetcher\<close>

text \<open>The prefix of the monthly report's name, U+6708 U+5831 and an underscore.\<close>

definition monthlyReportPrefix :: jsstring where
  "monthlyReportPrefix = [0x6708, 0x5831] @ lit ''_''"

definition getKPTContents_url :: "Env \<Rightarrow> Date \<Rightarrow> error + jsstring" where
  "getKPTContents_url env tod =
     (let year = getFullYear tod;
          month = padStart (toString (int (getMonth tod))) 2 (lit ''0'')
      in joinPaths
           [SCRAPBOX_BASE_URL env,
            lit ''pages'',
            SCRAPBOX_PROJECT_NAME env,
            monthlyReportPrefix @ toString year @ month,
            lit ''text''])"

definition getKPTContents_headers :: "Env \<Rightarrow> headers" where
  "getKPTContents_headers env = [(lit ''Cookie'', lit ''connect.sid='' @ SCRAPBOX_SID env)]"

text \<open>
  The call of \<^verbatim>\<open>UrlFetchApp.fetch\<close> in \<^verbatim>\<open>getKPTContents\<close> passes \<^verbatim>\<open>headers\<close> only, so
  \<^verbatim>\<open>muteHttpExceptions\<close> has its default.
\<close>

definition getKPTContents ::
  "Env \<Rightarrow> Services \<Rightarrow> Date \<Rightarrow> World \<Rightarrow> (error + KPTContents) \<times> World" where
  "getKPTContents env srv tod w =
     (case getKPTContents_url env tod of
        Inl e \<Rightarrow> (Inl e, w)
      | Inr url \<Rightarrow>
          (case UrlFetchApp_fetch srv url (getKPTContents_headers env) False w of
             (Inl e, w') \<Rightarrow> (Inl e, w')
           | (Inr response, w') \<Rightarrow>
               if getResponseCode response \<noteq> 200
               then (Inl (Error (FetchInfo (getHeaders response) (getContentText response)
                                   (getResponseCode response))), w')
               else (parseAsKPTContents (getContentText response), w')))"

section \<open>Storage Locator\<close>

text \<open>The callback of the \<^verbatim>\<open>reduce\<close> in \<^verbatim>\<open>findFolderByPathnames\<close>.\<close>

definition findFolderStep :: "GFolder option \<Rightarrow> jsstring \<Rightarrow> GFolder option" where
  "findFolderStep folder pathname =
     (case folder of
        None \<Rightarrow> None
      | Some f \<Rightarrow> List.find (\<lambda>folder'. folderName folder' = pathname) (getFolders f))"

definition findFolderByPathnames :: "Services \<Rightarrow> jsstring list \<Rightarrow> jsstring \<Rightarrow> error + GFolder" where
  "findFolderByPathnames srv pathnames rootFolderId =
     (let rootFolder = getFolderById srv rootFolderId;
          found = foldl findFolderStep (Some rootFolder) pathnames
      in case found of
           None \<Rightarrow> Inl (Error (FolderNotFound pathnames rootFolderId))
         | Some f \<Rightarrow> Inr f)"

definition getFilesByName :: "GFolder \<Rightarrow> jsstring \<Rightarrow> GFile list" where
  "getFilesByName folder name = filter (\<lambda>file. fileName file = name) (getFiles folder)"

definition findSpreadsheetByName :: "Services \<Rightarrow> jsstring \<Rightarrow> GFolder \<Rightarrow> error + Spreadsheet" where
  "findSpreadsheetByName srv name folder =
     (case getFilesByName folder name of
        [] \<Rightarrow> Inl (Error (SpreadsheetNotFound name folder))
      | file # _ \<Rightarrow> Inr (openById srv (fileId file)))"

text \<open>The name of the folder of the monthly documents, U+6708 U+6B21 U+8CC7 U+6599.\<close>

definition monthlyFolderName :: jsstring where
  "monthlyFolderName = [0x6708, 0x6B21, 0x8CC7, 0x6599]"

definition pathnames :: "Date \<Rightarrow> jsstring list" where
  "pathnames tod =
     (let year = toString (getFullYear tod);
          month = padStart (toString (int (getMonth tod))) 2 (lit ''0'')
      in [monthlyFolderName, year, month])"

definition monthlyReportName :: "Date \<Rightarrow> jsstring" where
  "monthlyReportName tod =
     (let year = toString (getFullYear tod);
          month = padStart (toString (int (getMonth tod))) 2 (lit ''0'')
      in monthlyReportPrefix @ year @ month)"

definition getMonthlyReportSpreadsheet :: "Env \<Rightarrow> Services \<Rightarrow> Date \<Rightarrow> error + Spreadsheet" where
  "getMonthlyReportSpreadsheet env srv tod =
     (case findFolderByPathnames srv (pathnames tod) (GDRIVE_ROOT_FOLDER_ID env) of
        Inl e \<Rightarrow> Inl e
      | Inr folder \<Rightarrow> findSpreadsheetByName srv (monthlyReportName tod) folder)"

text \<open>
  Folder resolution as the specification words it: from a folder, for each name in
  turn, the first child folder whose name is that name, and nothing when a name has
  no such child.
\<close>

fun descend :: "GFolder \<Rightarrow> jsstring list \<Rightarrow> GFolder option" where
  "descend folder [] = Some folder"
| "descend folder (name # names) =
     (case List.find (\<lambda>child. folderName child = name) (getFolders folder) of
        None \<Rightarrow> None
      | Some child \<Rightarrow> descend child names)"

section \<open>Report Writer\<close>

record UpdateMonthlyReportResult =
  succeed :: bool
  kpt :: KPTContents
  spreadsheet :: Spreadsheet

text \<open>
  \<open>setValue\<close> is \<^verbatim>\<open>sheet.getRange(address).setValue(v)\<close>: the cell is written, or the
  service throws and the cell stays as it was. \<open>overwriteKPTContents\<close> makes its four
  writes one after the other with nothing around them, so the first that throws ends
  it, after the writes before it.
\<close>

definition setValue ::
  "Services \<Rightarrow> Spreadsheet \<Rightarrow> jsstring \<Rightarrow> jsstring option \<Rightarrow> World \<Rightarrow> error + World" where
  "setValue srv sheet address v w =
     (if setValueThrows srv (getId sheet) address
      then Inl (Exception (WriteFailed (getId sheet) address))
      else Inr (w\<lparr>cells := (cells w)((getId sheet, address) \<mapsto> v)\<rparr>))"

definition overwriteKPTContents ::
  "Services \<Rightarrow> KPTContents \<Rightarrow> Spreadsheet \<Rightarrow> World
     \<Rightarrow> (error + UpdateMonthlyReportResult) \<times> World" where
  "overwriteKPTContents srv kptContents monthlyReportSheet w =
     (case setValue srv monthlyReportSheet (lit ''B8'') (kptContents (lit ''keep'')) w of
        Inl e \<Rightarrow> (Inl e, w)
      | Inr w1 \<Rightarrow>
     (case setValue srv monthlyReportSheet (lit ''B12'') (kptContents (lit ''problem'')) w1 of
        Inl e \<Rightarrow> (Inl e, w1)
      | Inr w2 \<Rightarrow>
     (case setValue srv monthlyReportSheet (lit ''B16'') (kptContents (lit ''try'')) w2 of
        Inl e \<Rightarrow> (Inl e, w2)
      | Inr w3 \<Rightarrow>
     (case setValue srv monthlyReportSheet (lit ''B20'') (kptContents (lit ''other'')) w3 of
        Inl e \<Rightarrow> (Inl e, w3)
      | Inr w4 \<Rightarrow>
          (Inr \<lparr>succeed = True,
                kpt = kptContents,
                spreadsheet = \<lparr>getId = getId monthlyReportSheet,
                                getName = getName monthlyReportSheet,
                                getUrl = getUrl monthlyReportSheet\<rparr>\<rparr>, w4)))))"

text \<open>
  The writes of the Report Writer, in the order of the source, and those of them
  that are made: the ones before the first that the service refuses.
\<close>

definition reportWrites :: "KPTContents \<Rightarrow> (jsstring \<times> jsstring option) list" where
  "reportWrites kptContents =
     [(lit ''B8'', kptContents (lit ''keep'')),
      (lit ''B12'', kptContents (lit ''problem'')),
      (lit ''B16'', kptContents (lit ''try'')),
      (lit ''B20'', kptContents (lit ''other''))]"

definition writesMade ::
  "Services \<Rightarrow> Spreadsheet \<Rightarrow> KPTContents \<Rightarrow> (jsstring \<times> jsstring option) list" where
  "writesMade srv sheet kptContents =
     takeWhile (\<lambda>(address, v). \<not> setValueThrows srv (getId sheet) address)
       (reportWrites kptContents)"

definition written ::
  "Spreadsheet \<Rightarrow> (jsstring \<times> jsstring option) list
     \<Rightarrow> ((jsstring \<times> jsstring) \<rightharpoonup> jsstring option)
     \<Rightarrow> ((jsstring \<times> jsstring) \<rightharpoonup> jsstring option)" where
  "written sheet ws store = foldl (\<lambda>m (address, v). m((getId sheet, address) \<mapsto> v)) store ws"

section \<open>Orchestrator\<close>

text \<open>
  \<^verbatim>\<open>main\<close> calls \<^verbatim>\<open>getKPTContents\<close>, then \<^verbatim>\<open>getMonthlyReportSpreadsheet\<close>, and awaits both
  with \<^verbatim>\<open>Promise.all\<close>, which rejects with the error of the first of the two promises
  that is rejected: the one of \<^verbatim>\<open>getKPTContents\<close> is settled when it is returned.
  The result record is what the run logs.
\<close>

definition main ::
  "Env \<Rightarrow> Services \<Rightarrow> Date \<Rightarrow> World \<Rightarrow> (error + UpdateMonthlyReportResult) \<times> World" where
  "main env srv today w =
     (case getKPTContents env srv today w of
        (r1, w1) \<Rightarrow>
          (let r2 = getMonthlyReportSpreadsheet env srv today
           in case r1 of
                Inl e \<Rightarrow> (Inl e, w1)
              | Inr kptContents \<Rightarrow>
                  (case r2 of
                     Inl e \<Rightarrow> (Inl e, w1)
                   | Inr monthlyReportSheet \<Rightarrow>
                       overwriteKPTContents srv kptContents monthlyReportSheet w1)))"

section \<open>An example run\<close>

text \<open>
  A configuration, a Drive and services for the instances below. The Drive has the
  folder of the monthly documents with the years \<open>202\<close> and \<open>2024\<close>; \<open>2024\<close> has the
  months \<open>0\<close>, \<open>00\<close> and \<open>01\<close>, and only \<open>00\<close> holds a monthly report, the one of
  \<open>202400\<close>. The document service answers every request with the given status
  and body.
\<close>

definition exampleEnv :: Env where
  "exampleEnv =
     \<lparr>SCRAPBOX_SID = lit ''s1d'',
      SCRAPBOX_BASE_URL = lit ''https://wiki.example/api/'',
      SCRAPBOX_PROJECT_NAME = lit ''team'',
      GDRIVE_ROOT_FOLDER_ID = lit ''root0''\<rparr>"

definition exampleDrive :: GFolder where
  "exampleDrive =
     GFolder (lit ''My Drive'')
       [GFolder monthlyFolderName
          [GFolder (lit ''202'') [GFolder (lit ''05'') [] []] [],
           GFolder (lit ''2024'')
             [GFolder (lit ''0'') [] [],
              GFolder (lit ''00'') []
                [\<lparr>fileId = lit ''f0'', fileName = lit ''notes''\<rparr>,
                 \<lparr>fileId = lit ''f1'', fileName = monthlyReportPrefix @ lit ''202400''\<rparr>],
              GFolder (lit ''01'') [] [\<lparr>fileId = lit ''f2'', fileName = lit ''notes''\<rparr>]]
             []]
          []]
       []"

definition exampleServices :: "int \<Rightarrow> jsstring \<Rightarrow> Services" where
  "exampleServices code body =
     \<lparr>serverResponse = (\<lambda>url hs. \<lparr>getResponseCode = code,
                          getHeaders = [(lit ''Content-Type'', lit ''text/plain'')],
                          getContentText = body\<rparr>),
      getFolderById = (\<lambda>i. exampleDrive),
      openById = (\<lambda>i. \<lparr>getId = i, getName = lit ''report'', getUrl = lit ''https://sheets.example/'' @ i\<rparr>),
      setValueThrows = (\<lambda>i address. False)\<rparr>"

text \<open>The same services with the cell \<open>B12\<close> of every spreadsheet protected.\<close>

definition protectedServices :: "int \<Rightarrow> jsstring \<Rightarrow> Services" where
  "protectedServices code body =
     (exampleServices code body)\<lparr>setValueThrows := (\<lambda>i address. address = lit ''B12'')\<rparr>"

definition emptyWorld :: World where
  "emptyWorld = \<lparr>requests = [], cells = Map.empty\<rparr>"

definition examplePage :: jsstring where
  "examplePage = lit ''Title\<newline>\<newline>[[Keep]]\<newline>line1\<newline>line2\<newline>\<newline>[[Try]]\<newline>tryline''"

section \<open>Properties of the Path Joiner\<close>

lemma joinPath_switch_cases:
  "joinPath_switch lhs rhs = 0 \<or> joinPath_switch lhs rhs = 1
   \<or> joinPath_switch lhs rhs = 2 \<or> joinPath_switch lhs rhs = 3"
  by (simp add: joinPath_switch_def)

lemma endsWith_SEPARATOR_butlast:
  "endsWith lhs SEPARATOR \<Longrightarrow> butlast lhs @ SEPARATOR = lhs"
proof -
  assume e: "endsWith lhs SEPARATOR"
  then have ne: "lhs \<noteq> []"
    by (auto simp: endsWith_def SEPARATOR_def lit_def)
  from e have "drop (length lhs - 1) lhs = SEPARATOR"
    by (simp add: endsWith_def SEPARATOR_def lit_def)
  moreover from ne have "drop (length lhs - 1) lhs = [last lhs]"
    by (induction lhs rule: rev_induct) simp_all
  ultimately have "[last lhs] = SEPARATOR"
    by simp
  with ne show ?thesis
    by (metis append_butlast_last_id)
qed

lemma startsWith_SEPARATOR_drop:
  "startsWith rhs SEPARATOR \<Longrightarrow> SEPARATOR @ drop 1 rhs = rhs"
  by (cases rhs) (simp_all add: startsWith_def SEPARATOR_def lit_def)

lemma joinPath_strips_one:
  "joinPath lhs rhs =
     Inr ((if endsWith lhs SEPARATOR then butlast lhs else lhs) @ SEPARATOR
          @ (if startsWith rhs SEPARATOR then drop 1 rhs else rhs))"
proof (cases "endsWith lhs SEPARATOR")
  case l: True
  show ?thesis
  proof (cases "startsWith rhs SEPARATOR")
    case True
    with l endsWith_SEPARATOR_butlast [OF l] show ?thesis
      by (simp add: joinPath_def joinPath_switch_def substring_def)
  next
    case False
    with l endsWith_SEPARATOR_butlast [OF l] show ?thesis
      by (simp add: joinPath_def joinPath_switch_def)
  qed
next
  case l: False
  show ?thesis
  proof (cases "startsWith rhs SEPARATOR")
    case True
    with l startsWith_SEPARATOR_drop [OF True] show ?thesis
      by (simp add: joinPath_def joinPath_switch_def)
  next
    case False
    with l show ?thesis
      by (simp add: joinPath_def joinPath_switch_def)
  qed
qed

lemma joinPaths_example:
  "joinPaths [lit ''a/'', lit ''/b'', lit ''c/''] = Inr (lit ''a/b/c/'')"
  by (simp add: joinPaths_def joinPath_def joinPath_switch_def startsWith_def endsWith_def
      substring_def SEPARATOR_def lit_def)

text \<open>
  C2, as the code has it. \<open>joinPath\<close> drops at most one separator at the end of the
  left string and at most one at the start of the right string and puts exactly one
  between them. The fold over \<open>["a/", "/b", "c/"]\<close> keeps the separator that
  ends the last element: it yields \<open>"a/b/c/"\<close>.
\<close>

theorem joinPath_one_separator:
  "joinPath lhs rhs =
     Inr ((if endsWith lhs SEPARATOR then butlast lhs else lhs) @ SEPARATOR
          @ (if startsWith rhs SEPARATOR then drop 1 rhs else rhs))
   \<and> joinPaths [lit ''a/'', lit ''/b'', lit ''c/'']
       = Inr (lit ''a/b/c/'')"
  using joinPath_strips_one joinPaths_example by blast

text \<open>
  C2, as the specification states it, fails on its example: the fold over
  \<open>["a/", "/b", "c/"]\<close> is not \<open>"a/b/c"\<close>.
\<close>

theorem joinPaths_example_counterexample:
  "joinPaths [lit ''a/'', lit ''/b'', lit ''c/'']
     \<noteq> Inr (lit ''a/b/c'')"
  by (simp add: joinPaths_def joinPath_def joinPath_switch_def startsWith_def endsWith_def
      substring_def SEPARATOR_def lit_def)

text \<open>
  C9. The discriminant of the \<open>switch\<close> in \<open>joinPath\<close> is one of 0, 1, 2, 3 for every
  pair of strings, so the \<open>default\<close> branch is never taken: \<open>joinPath\<close> returns a
  string and never the \<open>Unreachable\<close> error.
\<close>

theorem joinPath_total:
  "joinPath_switch lhs rhs \<in> {0, 1, 2, 3}
   \<and> (\<exists>s. joinPath lhs rhs = Inr s)
   \<and> joinPath lhs rhs \<noteq> Inl (Error (Message (lit ''Unreachable'')))"
proof -
  have d: "joinPath_switch lhs rhs \<in> {0, 1, 2, 3}"
    using joinPath_switch_cases [of lhs rhs] by auto
  have r: "\<exists>s. joinPath lhs rhs = Inr s"
    using joinPath_strips_one [of lhs rhs] by blast
  from r have "joinPath lhs rhs \<noteq> Inl (Error (Message (lit ''Unreachable'')))"
    by auto
  with d r show ?thesis by blast
qed

text \<open>
  C10. \<open>joinPaths\<close> on a list of one element returns that element as it is, with
  whatever separators it starts or ends with: \<open>joinPath\<close> is not called.
\<close>

theorem joinPaths_singleton:
  "joinPaths [p] = Inr p"
  by (simp add: joinPaths_def)

section \<open>Properties of the KPT Parser\<close>

lemma split_go_not_Nil: "split_go sep cur s \<noteq> []"
  by (induction sep cur s rule: split_go.induct) simp_all

lemma split_not_Nil: "sep \<noteq> [] \<Longrightarrow> split s sep \<noteq> []"
  by (simp add: split_def split_go_not_Nil)

lemma Nil_notin_kinds: "[] \<notin> set kptContentsKinds"
  by (simp add: kptContentsKinds_def lit_def)

lemma parseChunk_setSection: "parseChunk obj chunk = Inr (setSection obj chunk)"
proof (cases "split chunk (lit ''\<newline>'')")
  case Nil
  moreover have "split chunk (lit ''\<newline>'') \<noteq> []"
    by (rule split_not_Nil) (simp add: lit_def)
  ultimately show ?thesis by simp
next
  case (Cons label body)
  then show ?thesis
    using Nil_notin_kinds
    by (auto simp: parseChunk_def setSection_def sectionKind_def sectionBody_def
        split: option.splits)
qed

lemma reduceFrom_total:
  "(\<And>acc x. f acc x = Inr (g acc x)) \<Longrightarrow> reduceFrom f acc xs = Inr (foldl g acc xs)"
  by (induction xs arbitrary: acc) simp_all

lemma parseAsKPTContents_foldl:
  "parseAsKPTContents contents = Inr (foldl setSection emptyKPTContents (sections contents))"
  unfolding parseAsKPTContents_def sections_def
  by (rule reduceFrom_total) (rule parseChunk_setSection)

lemma emptyKPTContents_eq:
  "emptyKPTContents =
     [lit ''try'' \<mapsto> lit '''', lit ''problem'' \<mapsto> lit '''', lit ''keep'' \<mapsto> lit '''',
      lit ''other'' \<mapsto> lit '''']"
  by (simp add: emptyKPTContents_def fromEntries_def kptContentsKinds_def)

lemma dom_emptyKPTContents: "dom emptyKPTContents = set kptContentsKinds"
  by (auto simp: emptyKPTContents_eq kptContentsKinds_def)

lemma sectionKind_in_kinds: "sectionKind chunk = Some kind \<Longrightarrow> kind \<in> set kptContentsKinds"
  by (auto simp: sectionKind_def split: list.splits option.splits if_splits)

lemma dom_setSection:
  "dom obj = set kptContentsKinds \<Longrightarrow> dom (setSection obj chunk) = set kptContentsKinds"
  by (auto simp: setSection_def split: option.splits dest: sectionKind_in_kinds)

lemma dom_foldl_setSection:
  "dom obj = set kptContentsKinds \<Longrightarrow> dom (foldl setSection obj chunks) = set kptContentsKinds"
  by (induction chunks arbitrary: obj) (simp_all add: dom_setSection)

lemma foldl_setSection_unlabelled:
  "\<forall>chunk \<in> set chunks. sectionKind chunk = None \<Longrightarrow> foldl setSection obj chunks = obj"
  by (induction chunks arbitrary: obj) (simp_all add: setSection_def)

lemma foldl_setSection_last:
  "filter (\<lambda>chunk. sectionKind chunk = Some kind) chunks \<noteq> [] \<Longrightarrow>
   foldl setSection obj chunks kind
     = Some (sectionBody (last (filter (\<lambda>chunk. sectionKind chunk = Some kind) chunks)))"
proof (induction chunks rule: rev_induct)
  case Nil
  then show ?case by simp
next
  case (snoc chunk chunks)
  show ?case
  proof (cases "sectionKind chunk = Some kind")
    case True
    then show ?thesis by (simp add: setSection_def)
  next
    case False
    with snoc.prems have "filter (\<lambda>chunk. sectionKind chunk = Some kind) chunks \<noteq> []"
      by simp
    with snoc.IH False show ?thesis
      by (auto simp: setSection_def split: option.splits)
  qed
qed

text \<open>
  C3. The page text of the specification's scenario, a title, a Keep section of two
  lines and a Try section of one line, parses to the contents with \<open>keep\<close> the two
  lines joined by a newline, \<open>try\<close> the one line, and \<open>problem\<close> and \<open>other\<close> empty.
\<close>

theorem parseAsKPTContents_example:
  "parseAsKPTContents
     (lit ''Title\<newline>\<newline>[[Keep]]\<newline>line1\<newline>line2\<newline>\<newline>[[Try]]\<newline>tryline'')
   = Inr [lit ''keep'' \<mapsto> lit ''line1\<newline>line2'', lit ''try'' \<mapsto> lit ''tryline'',
          lit ''problem'' \<mapsto> lit '''', lit ''other'' \<mapsto> lit '''']"
proof -
  have "parseAsKPTContents
     (lit ''Title\<newline>\<newline>[[Keep]]\<newline>line1\<newline>line2\<newline>\<newline>[[Try]]\<newline>tryline'')
     = Inr (emptyKPTContents(lit ''keep'' \<mapsto> lit ''line1\<newline>line2'', lit ''try'' \<mapsto> lit ''tryline''))"
    by (simp add: parseAsKPTContents_def split_def parseChunk_def labelKind_def lit_def
        startsWith_def isLineTerminator_def toLowerCase_def toLowerCaseUnit_def
        kptContentsKinds_def)
  moreover have "emptyKPTContents(lit ''keep'' \<mapsto> lit ''line1\<newline>line2'', lit ''try'' \<mapsto> lit ''tryline'')
    = [lit ''keep'' \<mapsto> lit ''line1\<newline>line2'', lit ''try'' \<mapsto> lit ''tryline'',
          lit ''problem'' \<mapsto> lit '''', lit ''other'' \<mapsto> lit '''']"
    by (rule ext) (simp add: emptyKPTContents_eq lit_def)
  ultimately show ?thesis by simp
qed

text \<open>
  C5. For every text the parser returns contents, never an error, and the contents
  have exactly the four keys \<open>try\<close>, \<open>problem\<close>, \<open>keep\<close> and \<open>other\<close>; when no section of
  the text has a recognized kind, all four fields are the empty string.
\<close>

theorem parseAsKPTContents_total:
  "\<exists>obj. parseAsKPTContents contents = Inr obj
     \<and> dom obj = {lit ''try'', lit ''problem'', lit ''keep'', lit ''other''}
     \<and> ((\<forall>chunk \<in> set (sections contents). sectionKind chunk = None) \<longrightarrow>
          obj = [lit ''try'' \<mapsto> lit '''', lit ''problem'' \<mapsto> lit '''',
                 lit ''keep'' \<mapsto> lit '''', lit ''other'' \<mapsto> lit ''''])"
proof -
  let ?kpt = "foldl setSection emptyKPTContents (sections contents)"
  have "parseAsKPTContents contents = Inr ?kpt"
    by (rule parseAsKPTContents_foldl)
  moreover have "dom ?kpt = {lit ''try'', lit ''problem'', lit ''keep'', lit ''other''}"
    using dom_foldl_setSection [OF dom_emptyKPTContents, of "sections contents"]
    by (simp add: kptContentsKinds_def)
  moreover have "(\<forall>chunk \<in> set (sections contents). sectionKind chunk = None) \<longrightarrow>
          ?kpt = [lit ''try'' \<mapsto> lit '''', lit ''problem'' \<mapsto> lit '''',
                 lit ''keep'' \<mapsto> lit '''', lit ''other'' \<mapsto> lit '''']"
    using foldl_setSection_unlabelled [of "sections contents" emptyKPTContents]
    by (simp add: emptyKPTContents_eq)
  ultimately show ?thesis by blast
qed

text \<open>
  An instance of C5: a text whose sections are a plain paragraph and a section with the
  label \<open>[[Memo]]\<close>, which is not one of the four kinds.
\<close>

theorem parseAsKPTContents_total_witness:
  "parseAsKPTContents (lit ''Title\<newline>\<newline>notes\<newline>more\<newline>\<newline>[[Memo]]\<newline>x'')
   = Inr [lit ''try'' \<mapsto> lit '''', lit ''problem'' \<mapsto> lit '''',
          lit ''keep'' \<mapsto> lit '''', lit ''other'' \<mapsto> lit '''']"
proof -
  let ?text = "lit ''Title\<newline>\<newline>notes\<newline>more\<newline>\<newline>[[Memo]]\<newline>x''"
  have "\<forall>chunk \<in> set (sections ?text). sectionKind chunk = None"
    by (simp add: sections_def sectionKind_def split_def labelKind_def lit_def
        startsWith_def isLineTerminator_def toLowerCase_def toLowerCaseUnit_def
        kptContentsKinds_def)
  with parseAsKPTContents_total [of ?text] show ?thesis
    by auto
qed

text \<open>
  C6. When sections of the text have the kind \<open>kind\<close>, one of them or several, the
  parser returns contents, with no error, whose field \<open>kind\<close> is the body of the last
  of these sections: its lines after the label, joined by newlines, and nothing of
  the earlier sections.
\<close>

theorem parseAsKPTContents_last_wins:
  "filter (\<lambda>chunk. sectionKind chunk = Some kind) (sections contents) \<noteq> [] \<Longrightarrow>
   \<exists>obj. parseAsKPTContents contents = Inr obj
     \<and> obj kind = Some (sectionBody
         (last (filter (\<lambda>chunk. sectionKind chunk = Some kind) (sections contents))))"
  using foldl_setSection_last [of kind "sections contents" emptyKPTContents]
  by (simp add: parseAsKPTContents_foldl)

text \<open>
  An instance of C6: two Keep sections, the second with its label in capitals, and a
  Try section between them.
\<close>

theorem parseAsKPTContents_last_wins_witness:
  "\<exists>obj. parseAsKPTContents
       (lit ''T\<newline>\<newline>[[Keep]]\<newline>old\<newline>\<newline>[[Try]]\<newline>t\<newline>\<newline>[[KEEP]]\<newline>new1\<newline>new2'')
       = Inr obj
     \<and> obj (lit ''keep'') = Some (lit ''new1\<newline>new2'')"
  using parseAsKPTContents_last_wins [of "lit ''keep''"
      "lit ''T\<newline>\<newline>[[Keep]]\<newline>old\<newline>\<newline>[[Try]]\<newline>t\<newline>\<newline>[[KEEP]]\<newline>new1\<newline>new2''"]
  by (simp add: sections_def sectionKind_def sectionBody_def split_def labelKind_def lit_def
      startsWith_def isLineTerminator_def toLowerCase_def toLowerCaseUnit_def
      kptContentsKinds_def)

section \<open>Properties of the Storage Locator\<close>

lemma findFolderStep_None: "findFolderStep None name = None"
  by (simp add: findFolderStep_def)

lemma findFolderStep_Some:
  "findFolderStep (Some folder) name
     = List.find (\<lambda>child. folderName child = name) (getFolders folder)"
  by (simp add: findFolderStep_def)

lemma foldl_findFolderStep_None: "foldl findFolderStep None names = None"
  by (induction names) (simp_all add: findFolderStep_None)

lemma foldl_findFolderStep_descend:
  "foldl findFolderStep (Some folder) names = descend folder names"
proof (induction names arbitrary: folder)
  case Nil
  show ?case by simp
next
  case (Cons name names)
  show ?case
  proof (cases "List.find (\<lambda>child. folderName child = name) (getFolders folder)")
    case None
    then show ?thesis
      by (simp add: findFolderStep_Some foldl_findFolderStep_None)
  next
    case (Some child)
    with Cons.IH [of child] show ?thesis
      by (simp add: findFolderStep_Some)
  qed
qed

text \<open>
  C7. \<open>findFolderByPathnames\<close> descends from the root folder, taking at each name the
  first child folder whose name equals it; it returns the folder reached, and when a
  name has no such child it fails with the error whose payload is the whole list of
  names and the root folder's identifier. It only reads the folders: a name that is
  part of a child's name, or that a child's name is part of, does not match, and
  nothing is created.
\<close>

theorem findFolderByPathnames_descends:
  "findFolderByPathnames srv names rootFolderId =
     (case descend (getFolderById srv rootFolderId) names of
        Some folder \<Rightarrow> Inr folder
      | None \<Rightarrow> Inl (Error (FolderNotFound names rootFolderId)))"
  by (simp add: findFolderByPathnames_def foldl_findFolderStep_descend split: option.split)

section \<open>Properties of the Page Fetcher\<close>

lemma reduceFrom_joinPath_total: "\<exists>s. reduceFrom joinPath p ps = Inr s"
  by (induction ps arbitrary: p) (simp_all add: joinPath_strips_one)

lemma joinPaths_total: "paths \<noteq> [] \<Longrightarrow> \<exists>s. joinPaths paths = Inr s"
  by (cases paths) (simp_all add: joinPaths_def reduceFrom_joinPath_total)

lemma getKPTContents_url_total: "\<exists>url. getKPTContents_url env tod = Inr url"
  unfolding getKPTContents_url_def Let_def by (rule joinPaths_total) simp

lemma parseAsKPTContents_returns: "\<exists>obj. parseAsKPTContents contents = Inr obj"
  by (simp add: parseAsKPTContents_foldl)

lemma getKPTContents_cases:
  "getKPTContents_url env tod = Inr url \<Longrightarrow>
   getKPTContents env srv tod w =
     (let response = serverResponse srv url (getKPTContents_headers env)
      in (if getResponseCode response = 200
          then parseAsKPTContents (getContentText response)
          else if indicatesFailure (getResponseCode response)
          then Inl (Exception (RequestFailed url (getResponseCode response)))
          else Inl (Error (FetchInfo (getHeaders response) (getContentText response)
                     (getResponseCode response))),
          w\<lparr>requests := requests w @ [(url, getKPTContents_headers env)]\<rparr>))"
  by (simp add: getKPTContents_def UrlFetchApp_fetch_def Let_def indicatesFailure_def)

lemma getKPTContents_not_200:
  assumes "getKPTContents_url env tod = Inr url"
    and "getResponseCode (serverResponse srv url (getKPTContents_headers env)) \<noteq> 200"
  shows "\<exists>e. fst (getKPTContents env srv tod w) = Inl e"
  using assms by (simp add: getKPTContents_cases Let_def)

lemma getKPTContents_200:
  assumes "getKPTContents_url env tod = Inr url"
    and "getResponseCode (serverResponse srv url (getKPTContents_headers env)) = 200"
  shows "fst (getKPTContents env srv tod w)
         = parseAsKPTContents (getContentText (serverResponse srv url (getKPTContents_headers env)))"
  using assms by (simp add: getKPTContents_cases Let_def)

lemma cells_getKPTContents: "cells (snd (getKPTContents env srv tod w)) = cells w"
proof -
  obtain url where "getKPTContents_url env tod = Inr url"
    using getKPTContents_url_total by blast
  then show ?thesis
    by (simp add: getKPTContents_cases Let_def)
qed

section \<open>Properties of the Orchestrator\<close>

lemma getMonthlyReportSpreadsheet_cases:
  "getMonthlyReportSpreadsheet env srv tod =
     (case descend (getFolderById srv (GDRIVE_ROOT_FOLDER_ID env)) (pathnames tod) of
        None \<Rightarrow> Inl (Error (FolderNotFound (pathnames tod) (GDRIVE_ROOT_FOLDER_ID env)))
      | Some folder \<Rightarrow>
          (case getFilesByName folder (monthlyReportName tod) of
             [] \<Rightarrow> Inl (Error (SpreadsheetNotFound (monthlyReportName tod) folder))
           | file # _ \<Rightarrow> Inr (openById srv (fileId file))))"
  by (simp add: getMonthlyReportSpreadsheet_def findFolderByPathnames_def
      foldl_findFolderStep_descend findSpreadsheetByName_def split: option.split)

lemma overwriteKPTContents_writesMade:
  "overwriteKPTContents srv obj sheet w =
     (if length (writesMade srv sheet obj) = 4
      then Inr \<lparr>succeed = True, kpt = obj,
                spreadsheet = \<lparr>getId = getId sheet, getName = getName sheet,
                                getUrl = getUrl sheet\<rparr>\<rparr>
      else Inl (Exception (WriteFailed (getId sheet)
                  (fst (reportWrites obj ! length (writesMade srv sheet obj))))),
      w\<lparr>cells := written sheet (writesMade srv sheet obj) (cells w)\<rparr>)"
  by (simp add: overwriteKPTContents_def setValue_def writesMade_def reportWrites_def
      written_def)

lemma written_reportWrites:
  "written sheet (reportWrites obj) store =
     store((getId sheet, lit ''B8'') \<mapsto> obj (lit ''keep''),
           (getId sheet, lit ''B12'') \<mapsto> obj (lit ''problem''),
           (getId sheet, lit ''B16'') \<mapsto> obj (lit ''try''),
           (getId sheet, lit ''B20'') \<mapsto> obj (lit ''other''))"
  by (simp add: written_def reportWrites_def)

lemma writesMade_all:
  "length (writesMade srv sheet obj) = 4 \<Longrightarrow> writesMade srv sheet obj = reportWrites obj"
proof -
  assume "length (writesMade srv sheet obj) = 4"
  then have "length (writesMade srv sheet obj) = length (reportWrites obj)"
    by (simp add: reportWrites_def)
  then show ?thesis
    unfolding writesMade_def by (metis takeWhile_eq_take take_all order_refl)
qed

lemma main_unfold:
  "main env srv today w =
     (case fst (getKPTContents env srv today w) of
        Inl e \<Rightarrow> (Inl e, snd (getKPTContents env srv today w))
      | Inr obj \<Rightarrow>
          (case getMonthlyReportSpreadsheet env srv today of
             Inl e \<Rightarrow> (Inl e, snd (getKPTContents env srv today w))
           | Inr sheet \<Rightarrow>
               overwriteKPTContents srv obj sheet (snd (getKPTContents env srv today w))))"
  by (simp add: main_def Let_def split: prod.split sum.split)

text \<open>
  C1, as the code has it. A run fails before the Report Writer is called when the
  response's status is not 200, when a folder of the path is missing or when the
  folder has no document of the report's name: it returns an error and leaves every
  cell as it was. In any other run the Report Writer writes the cells \<open>B8\<close>, \<open>B12\<close>,
  \<open>B16\<close> and \<open>B20\<close> of the spreadsheet found, in this order, with the fields \<open>keep\<close>,
  \<open>problem\<close>, \<open>try\<close> and \<open>other\<close> of the parsed contents, up to the first write that the
  spreadsheet service refuses. When none is refused the run returns the result record
  and the four cells are written; otherwise it returns the exception of the refused
  write, and the cells before it are written and stay so.
\<close>

theorem main_writes_until_refused:
  "\<exists>url. getKPTContents_url env today = Inr url
     \<and> (let response = serverResponse srv url (getKPTContents_headers env);
             root = getFolderById srv (GDRIVE_ROOT_FOLDER_ID env);
             failed = (getResponseCode response \<noteq> 200
                       \<or> (case descend root (pathnames today) of
                             None \<Rightarrow> True
                           | Some folder \<Rightarrow>
                               getFilesByName folder (monthlyReportName today) = []));
             result = main env srv today w
         in if failed
            then (\<exists>e. fst result = Inl e) \<and> cells (snd result) = cells w
            else (\<exists>obj sheet.
                    parseAsKPTContents (getContentText response) = Inr obj
                    \<and> getMonthlyReportSpreadsheet env srv today = Inr sheet
                    \<and> cells (snd result) = written sheet (writesMade srv sheet obj) (cells w)
                    \<and> (if length (writesMade srv sheet obj) = 4
                        then fst result =
                               Inr \<lparr>succeed = True, kpt = obj,
                                    spreadsheet = \<lparr>getId = getId sheet, getName = getName sheet,
                                                    getUrl = getUrl sheet\<rparr>\<rparr>
                             \<and> cells (snd result) =
                                 (cells w)((getId sheet, lit ''B8'') \<mapsto> obj (lit ''keep''),
                                           (getId sheet, lit ''B12'') \<mapsto> obj (lit ''problem''),
                                           (getId sheet, lit ''B16'') \<mapsto> obj (lit ''try''),
                                           (getId sheet, lit ''B20'') \<mapsto> obj (lit ''other''))
                        else fst result =
                               Inl (Exception (WriteFailed (getId sheet)
                                 (fst (reportWrites obj ! length (writesMade srv sheet obj))))))))"
proof -
  let ?fetched = "getKPTContents env srv today w"
  let ?lookup = "getMonthlyReportSpreadsheet env srv today"
  obtain url where url: "getKPTContents_url env today = Inr url"
    using getKPTContents_url_total by blast
  let ?response = "serverResponse srv url (getKPTContents_headers env)"
  let ?root = "getFolderById srv (GDRIVE_ROOT_FOLDER_ID env)"
  obtain obj where obj: "parseAsKPTContents (getContentText ?response) = Inr obj"
    using parseAsKPTContents_returns by blast
  have kept: "cells (snd ?fetched) = cells w"
    by (rule cells_getKPTContents)
  show ?thesis
  proof (cases "getResponseCode ?response = 200")
    case False
    with url obtain e where "fst ?fetched = Inl e"
      using getKPTContents_not_200 by blast
    with url False kept show ?thesis
      by (simp add: main_unfold Let_def)
  next
    case True
    with url obj have fetched: "fst ?fetched = Inr obj"
      by (simp add: getKPTContents_200)
    show ?thesis
    proof (cases "descend ?root (pathnames today)")
      case None
      then have "?lookup = Inl (Error (FolderNotFound (pathnames today) (GDRIVE_ROOT_FOLDER_ID env)))"
        by (simp add: getMonthlyReportSpreadsheet_cases)
      with url fetched kept None show ?thesis
        by (simp add: main_unfold Let_def)
    next
      case (Some folder)
      show ?thesis
      proof (cases "getFilesByName folder (monthlyReportName today)")
        case Nil
        with Some have "?lookup = Inl (Error (SpreadsheetNotFound (monthlyReportName today) folder))"
          by (simp add: getMonthlyReportSpreadsheet_cases)
        with url fetched kept Some Nil show ?thesis
          by (simp add: main_unfold Let_def)
      next
        case (Cons found others)
        let ?sheet = "openById srv (fileId found)"
        from Some Cons have lookup: "?lookup = Inr ?sheet"
          by (simp add: getMonthlyReportSpreadsheet_cases)
        have result: "main env srv today w = overwriteKPTContents srv obj ?sheet (snd ?fetched)"
          using fetched lookup by (simp add: main_unfold)
        have all: "length (writesMade srv ?sheet obj) = 4 \<Longrightarrow>
            written ?sheet (writesMade srv ?sheet obj) (cells w) =
              (cells w)((getId ?sheet, lit ''B8'') \<mapsto> obj (lit ''keep''),
                        (getId ?sheet, lit ''B12'') \<mapsto> obj (lit ''problem''),
                        (getId ?sheet, lit ''B16'') \<mapsto> obj (lit ''try''),
                        (getId ?sheet, lit ''B20'') \<mapsto> obj (lit ''other''))"
          using writesMade_all [of srv ?sheet obj] written_reportWrites [of ?sheet obj "cells w"]
          by simp
        from url True obj Some Cons lookup kept all show ?thesis
          by (simp add: result overwriteKPTContents_writesMade Let_def)
      qed
    qed
  qed
qed

section \<open>The month key\<close>

lemma digits_small: "n < 10 \<Longrightarrow> digits n = [digitChar n]"
  by (simp add: digits.simps [of n])

lemma digits_large: "10 \<le> n \<Longrightarrow> digits n = digits (n div 10) @ [digitChar (n mod 10)]"
  by (simp add: digits.simps [of n])

lemma toString_month:
  assumes "m < 100"
  shows "padStart (toString (int m)) 2 (lit ''0'') = [digitChar (m div 10), digitChar (m mod 10)]"
proof (cases "m < 10")
  case True
  then show ?thesis
    by (simp add: toString_def digits_small padStart_def lit_def digitChar_def)
next
  case False
  with assms have "digits m = [digitChar (m div 10), digitChar (m mod 10)]"
    by (simp add: digits_large digits_small)
  then show ?thesis
    by (simp add: toString_def padStart_def)
qed

lemma toString_year:
  assumes "1000 \<le> y" and "y \<le> 9999"
  shows "toString y =
     [digitChar (nat y div 1000), digitChar (nat y div 100 mod 10),
      digitChar (nat y div 10 mod 10), digitChar (nat y mod 10)]"
proof -
  let ?n = "nat y"
  from assms have n: "1000 \<le> ?n" "?n \<le> 9999" by simp_all
  have d1: "digits ?n = digits (?n div 10) @ [digitChar (?n mod 10)]"
    using n by (simp add: digits_large)
  have e2: "?n div 10 div 10 = ?n div 100" and e3: "?n div 100 div 10 = ?n div 1000"
    by (simp_all add: div_mult2_eq)
  have "10 \<le> ?n div 10"
    using n by arith
  then have d2: "digits (?n div 10) = digits (?n div 100) @ [digitChar (?n div 10 mod 10)]"
    using digits_large [of "?n div 10"] by (simp only: e2)
  have "10 \<le> ?n div 100"
    using n by arith
  then have d3: "digits (?n div 100) = digits (?n div 1000) @ [digitChar (?n div 100 mod 10)]"
    using digits_large [of "?n div 100"] by (simp only: e3)
  have "?n div 1000 < 10"
    using n by arith
  then have d4: "digits (?n div 1000) = [digitChar (?n div 1000)]"
    by (rule digits_small)
  from assms d1 d2 d3 d4 show ?thesis
    by (simp add: toString_def)
qed

lemma month_index_not_number:
  assumes "m < 12"
  shows "[digitChar (m div 10), digitChar (m mod 10)]
         \<noteq> [digitChar (Suc m div 10), digitChar (Suc m mod 10)]"
proof -
  from assms have "m = 0 \<or> m = 1 \<or> m = 2 \<or> m = 3 \<or> m = 4 \<or> m = 5 \<or> m = 6 \<or> m = 7
      \<or> m = 8 \<or> m = 9 \<or> m = 10 \<or> m = 11"
    by arith
  then show ?thesis
    by (auto simp: digitChar_def)
qed

text \<open>
  C4. For a date whose month index is below 12, the month component is the two decimal
  digits of the month index \<open>getMonth\<close>, with a leading zero below 10, and not those of
  the calendar month's number, which is one more. The page identifier in the URL and
  the name of the document looked up are the prefix followed by the year and this
  month component, and the folder path is the folder of the monthly documents, the
  year, the month component. The year is written in four digits from 1000 to 9999.
\<close>

theorem month_component_zero_based:
  "getMonth tod < 12 \<Longrightarrow>
   (let yyyy = toString (getFullYear tod);
        mm = [digitChar (getMonth tod div 10), digitChar (getMonth tod mod 10)]
    in getKPTContents_url env tod =
         joinPaths [SCRAPBOX_BASE_URL env, lit ''pages'', SCRAPBOX_PROJECT_NAME env,
                    monthlyReportPrefix @ yyyy @ mm, lit ''text'']
       \<and> getMonthlyReportSpreadsheet env srv tod =
           (case findFolderByPathnames srv [monthlyFolderName, yyyy, mm]
                   (GDRIVE_ROOT_FOLDER_ID env) of
              Inl e \<Rightarrow> Inl e
            | Inr folder \<Rightarrow> findSpreadsheetByName srv (monthlyReportPrefix @ yyyy @ mm) folder)
       \<and> pathnames tod = [monthlyFolderName, yyyy, mm]
       \<and> monthlyReportName tod = monthlyReportPrefix @ yyyy @ mm
       \<and> mm \<noteq> padStart (toString (int (getMonth tod + 1))) 2 (lit ''0'')
       \<and> (1000 \<le> getFullYear tod \<and> getFullYear tod \<le> 9999 \<longrightarrow>
            yyyy = [digitChar (nat (getFullYear tod) div 1000),
                    digitChar (nat (getFullYear tod) div 100 mod 10),
                    digitChar (nat (getFullYear tod) div 10 mod 10),
                    digitChar (nat (getFullYear tod) mod 10)]))"
proof -
  assume m: "getMonth tod < 12"
  then have mm: "padStart (toString (int (getMonth tod))) 2 (lit ''0'')
      = [digitChar (getMonth tod div 10), digitChar (getMonth tod mod 10)]"
    by (simp add: toString_month)
  from m have "padStart (toString (int (getMonth tod + 1))) 2 (lit ''0'')
      = [digitChar (Suc (getMonth tod) div 10), digitChar (Suc (getMonth tod) mod 10)]"
    using toString_month [of "Suc (getMonth tod)"] by simp
  with m have calendar: "[digitChar (getMonth tod div 10), digitChar (getMonth tod mod 10)]
      \<noteq> padStart (toString (int (getMonth tod + 1))) 2 (lit ''0'')"
    using month_index_not_number [of "getMonth tod"] by simp
  have url: "getKPTContents_url env tod =
         joinPaths [SCRAPBOX_BASE_URL env, lit ''pages'', SCRAPBOX_PROJECT_NAME env,
                    monthlyReportPrefix @ toString (getFullYear tod)
                      @ [digitChar (getMonth tod div 10), digitChar (getMonth tod mod 10)],
                    lit ''text'']"
    by (simp add: getKPTContents_url_def Let_def mm)
  have lookup: "getMonthlyReportSpreadsheet env srv tod =
           (case findFolderByPathnames srv [monthlyFolderName, toString (getFullYear tod),
                     [digitChar (getMonth tod div 10), digitChar (getMonth tod mod 10)]]
                   (GDRIVE_ROOT_FOLDER_ID env) of
              Inl e \<Rightarrow> Inl e
            | Inr folder \<Rightarrow> findSpreadsheetByName srv
                (monthlyReportPrefix @ toString (getFullYear tod)
                   @ [digitChar (getMonth tod div 10), digitChar (getMonth tod mod 10)]) folder)"
    unfolding getMonthlyReportSpreadsheet_def pathnames_def monthlyReportName_def Let_def mm ..
  have names: "pathnames tod = [monthlyFolderName, toString (getFullYear tod),
        [digitChar (getMonth tod div 10), digitChar (getMonth tod mod 10)]]"
    "monthlyReportName tod = monthlyReportPrefix @ toString (getFullYear tod)
        @ [digitChar (getMonth tod div 10), digitChar (getMonth tod mod 10)]"
    by (simp_all add: pathnames_def monthlyReportName_def Let_def mm)
  from url lookup names calendar toString_year [of "getFullYear tod"] show ?thesis
    by (simp add: Let_def)
qed

section \<open>The example run\<close>

lemmas evals = exampleEnv_def exampleDrive_def exampleServices_def emptyWorld_def
  examplePage_def UrlFetchApp_fetch_def indicatesFailure_def
  lit_def monthlyFolderName_def monthlyReportPrefix_def
  getKPTContents_url_def getKPTContents_headers_def getKPTContents_def
  joinPaths_def joinPath_def joinPath_switch_def startsWith_def endsWith_def substring_def SEPARATOR_def
  toString_def padStart_def digitChar_def
  pathnames_def monthlyReportName_def getMonthlyReportSpreadsheet_def findFolderByPathnames_def
  findFolderStep_def getFilesByName_def findSpreadsheetByName_def
  parseAsKPTContents_def split_def parseChunk_def labelKind_def isLineTerminator_def
  toLowerCase_def toLowerCaseUnit_def kptContentsKinds_def emptyKPTContents_def fromEntries_def
  Let_def

lemma digits_2024: "digits 2024 = lit ''2024''"
  by (simp add: digits.simps [of 2024] digits.simps [of 202] digits.simps [of 20] digits.simps [of 2] lit_def digitChar_def)

lemma digits_0: "digits 0 = lit ''0''"
  by (simp add: digits.simps [of 0] lit_def digitChar_def)

text \<open>
  An instance of C4: January 2024 has the month component \<open>00\<close>, in the URL, in the
  folder path and in the document's name.
\<close>

theorem month_component_zero_based_witness:
  "getKPTContents_url exampleEnv \<lparr>getFullYear = 2024, getMonth = 0\<rparr>
     = Inr (lit ''https://wiki.example/api/pages/team/'' @ [0x6708, 0x5831] @ lit ''_202400/text'')
   \<and> pathnames \<lparr>getFullYear = 2024, getMonth = 0\<rparr>
     = [[0x6708, 0x6B21, 0x8CC7, 0x6599], lit ''2024'', lit ''00'']
   \<and> monthlyReportName \<lparr>getFullYear = 2024, getMonth = 0\<rparr>
     = [0x6708, 0x5831] @ lit ''_202400''"
  using month_component_zero_based [of "\<lparr>getFullYear = 2024, getMonth = 0\<rparr>" exampleEnv
      "exampleServices 200 examplePage"]
  by (simp add: evals digits_2024 [unfolded lit_def] digits_0 [unfolded lit_def])

text \<open>
  An instance of C7 on the example Drive: the month \<open>05\<close> is missing under \<open>2024\<close>
  (it exists under \<open>202\<close>), and the error names the whole path; the month \<open>01\<close> is
  found.
\<close>

theorem findFolderByPathnames_descends_witness:
  "findFolderByPathnames (exampleServices 200 examplePage)
     [monthlyFolderName, lit ''2024'', lit ''05''] (lit ''root0'')
   = Inl (Error (FolderNotFound [monthlyFolderName, lit ''2024'', lit ''05''] (lit ''root0'')))
   \<and> findFolderByPathnames (exampleServices 200 examplePage)
     [monthlyFolderName, lit ''2024'', lit ''01''] (lit ''root0'')
   = Inr (GFolder (lit ''01'') [] [\<lparr>fileId = lit ''f2'', fileName = lit ''notes''\<rparr>])"
  using findFolderByPathnames_descends [of "exampleServices 200 examplePage"
      "[monthlyFolderName, lit ''2024'', lit ''05'']" "lit ''root0''"]
    findFolderByPathnames_descends [of "exampleServices 200 examplePage"
      "[monthlyFolderName, lit ''2024'', lit ''01'']" "lit ''root0''"]
  by (simp add: exampleServices_def exampleDrive_def monthlyFolderName_def lit_def)

text \<open>
  C8 at a response of status 404. \<^verbatim>\<open>UrlFetchApp.fetch\<close> is called without
  \<^verbatim>\<open>muteHttpExceptions\<close> and throws for this status, so the check of the status in
  \<open>getKPTContents\<close> is not reached: the error is the platform's exception, with the
  URL and the status, and not the error whose payload is the response's headers, its
  body and its status.
\<close>

theorem getKPTContents_status_404:
  "fst (getKPTContents exampleEnv (exampleServices 404 (lit ''Not Found''))
          \<lparr>getFullYear = 2024, getMonth = 0\<rparr> emptyWorld)
     = Inl (Exception (RequestFailed
         (lit ''https://wiki.example/api/pages/team/'' @ [0x6708, 0x5831] @ lit ''_202400/text'')
         404))
   \<and> fst (getKPTContents exampleEnv (exampleServices 404 (lit ''Not Found''))
          \<lparr>getFullYear = 2024, getMonth = 0\<rparr> emptyWorld)
     \<noteq> Inl (Error (FetchInfo [(lit ''Content-Type'', lit ''text/plain'')] (lit ''Not Found'') 404))"
  by (simp add: evals digits_2024 [unfolded lit_def] digits_0 [unfolded lit_def])

text \<open>
  An instance of C1: the run of January 2024 on the example Drive writes the four cells
  of the spreadsheet \<open>f1\<close>; the run of June 2024, whose folder \<open>05\<close> is missing, fails
  and writes nothing.
\<close>

theorem main_writes_until_refused_witness:
  "cells (snd (main exampleEnv (exampleServices 200 examplePage)
                 \<lparr>getFullYear = 2024, getMonth = 0\<rparr> emptyWorld))
     = [(lit ''f1'', lit ''B8'') \<mapsto> Some (lit ''line1\<newline>line2''),
        (lit ''f1'', lit ''B12'') \<mapsto> Some (lit ''''),
        (lit ''f1'', lit ''B16'') \<mapsto> Some (lit ''tryline''),
        (lit ''f1'', lit ''B20'') \<mapsto> Some (lit '''')]
   \<and> (\<exists>e. fst (main exampleEnv (exampleServices 200 examplePage)
                 \<lparr>getFullYear = 2024, getMonth = 5\<rparr> emptyWorld) = Inl e)
   \<and> cells (snd (main exampleEnv (exampleServices 200 examplePage)
                 \<lparr>getFullYear = 2024, getMonth = 5\<rparr> emptyWorld)) = Map.empty"
  using main_writes_until_refused [of exampleEnv "\<lparr>getFullYear = 2024, getMonth = 0\<rparr>"
      "exampleServices 200 examplePage" emptyWorld]
    main_writes_until_refused [of exampleEnv "\<lparr>getFullYear = 2024, getMonth = 5\<rparr>"
      "exampleServices 200 examplePage" emptyWorld]
  by (simp add: evals main_def overwriteKPTContents_def setValue_def
      digits_2024 [unfolded lit_def] digits_0 [unfolded lit_def] digits.simps [of 5])

text \<open>
  C1, as the specification states it, fails when the spreadsheet service refuses a
  write: with the cell \<open>B12\<close> protected, the run of January 2024 ends with the
  exception of that write, and of the four cells only \<open>B8\<close> is written.
\<close>

theorem main_partial_write_counterexample:
  "fst (main exampleEnv (protectedServices 200 examplePage)
          \<lparr>getFullYear = 2024, getMonth = 0\<rparr> emptyWorld)
     = Inl (Exception (WriteFailed (lit ''f1'') (lit ''B12'')))
   \<and> cells (snd (main exampleEnv (protectedServices 200 examplePage)
                 \<lparr>getFullYear = 2024, getMonth = 0\<rparr> emptyWorld))
     = [(lit ''f1'', lit ''B8'') \<mapsto> Some (lit ''line1\<newline>line2'')]"
  by (simp add: evals protectedServices_def main_def overwriteKPTContents_def setValue_def
      digits_2024 [unfolded lit_def] digits_0 [unfolded lit_def])

end
